theory Spec2Isabelle
  imports Main "HOL-Library.AList" "HOL-Library.Sublist"
begin

section \<open>JSON values and JavaScript objects\<close>

text \<open>
  The remote kernel-spec payload is whatever \<^verbatim>\<open>response.json()\<close> returns, cast without
  validation, so the model works on arbitrary JSON values. An object is an association
  list of own properties read with \<open>map_of\<close> (the first binding of a key is the effective
  one); \<^verbatim>\<open>Object.entries\<close> visits every own key once with its effective value
  (\<open>AList.clearjunk\<close>), and a spread defines own properties (\<open>AList.update\<close>). Plain
  objects inherit from \<^verbatim>\<open>Object.prototype\<close>: a lookup under a name chosen by the caller
  finds its members, and an assignment \<^verbatim>\<open>o[k] = v\<close> under the key \<^verbatim>\<open>__proto__\<close> runs the
  inherited setter instead of creating an own property. Numbers only ever take part in
  truthiness tests, so they are kept as integers. The value \<^verbatim>\<open>undefined\<close> is \<open>None\<close> of
  \<open>json option\<close>.
\<close>

datatype json =
    JNull
  | JBool bool
  | JNum int
  | JStr string
  | JArr "json list"
  | JObj "(string \<times> json) list"

fun truthy :: "json \<Rightarrow> bool" where
  "truthy JNull = False"
| "truthy (JBool b) = b"
| "truthy (JNum n) = (n \<noteq> 0)"
| "truthy (JStr s) = (s \<noteq> [])"
| "truthy (JArr xs) = True"
| "truthy (JObj kvs) = True"

definition truthy_opt :: "json option \<Rightarrow> bool" where
  "truthy_opt v = (case v of None \<Rightarrow> False | Some j \<Rightarrow> truthy j)"

text \<open>The operator \<^verbatim>\<open>a ?? d\<close>: \<open>d\<close> when \<open>a\<close> is \<^verbatim>\<open>undefined\<close> or \<^verbatim>\<open>null\<close>.\<close>

fun nullish :: "json option \<Rightarrow> bool" where
  "nullish None = True"
| "nullish (Some JNull) = True"
| "nullish (Some v) = False"

definition nullish_or :: "json option \<Rightarrow> json \<Rightarrow> json" where
  "nullish_or a d = (if nullish a then d else (case a of Some v \<Rightarrow> v | None \<Rightarrow> d))"

text \<open>
  Property access \<^verbatim>\<open>v.k\<close> for the fixed data properties the program reads; none of them is
  a member of a built-in prototype, so the own properties decide.
\<close>

fun getProp :: "json \<Rightarrow> string \<Rightarrow> json option" where
  "getProp (JObj kvs) k = map_of kvs k"
| "getProp v k = None"

text \<open>Decimal rendering of an index, for the keys of arrays and strings.\<close>

fun string_of_nat :: "nat \<Rightarrow> string" where
  "string_of_nat n =
     (if n < 10 then [char_of (48 + n)]
      else string_of_nat (n div 10) @ [char_of (48 + n mod 10)])"

declare string_of_nat.simps [simp del]

text \<open>
  \<^verbatim>\<open>Object.entries(v)\<close> and the spread \<^verbatim>\<open>{...v}\<close> for a value that is neither
  \<^verbatim>\<open>undefined\<close> nor \<^verbatim>\<open>null\<close>: the own enumerable properties.
\<close>

fun entries :: "json \<Rightarrow> (string \<times> json) list" where
  "entries (JObj kvs) = AList.clearjunk kvs"
| "entries (JArr xs) = zip (map string_of_nat [0..<length xs]) xs"
| "entries (JStr s) = zip (map string_of_nat [0..<length s]) (map (\<lambda>c. JStr [c]) s)"
| "entries v = []"

text \<open>The spread of a possibly absent value: \<^verbatim>\<open>{...undefined}\<close> and \<^verbatim>\<open>{...null}\<close> add nothing.\<close>

definition spread :: "json option \<Rightarrow> (string \<times> json) list" where
  "spread v = (case v of None \<Rightarrow> [] | Some j \<Rightarrow> entries j)"

definition keys :: "(string \<times> json) list \<Rightarrow> string set" where
  "keys kvs = fst ` set kvs"

text \<open>
  The assignment \<^verbatim>\<open>o[k] = v\<close> on a plain object. Under the key \<^verbatim>\<open>__proto__\<close> it runs the
  setter inherited from \<^verbatim>\<open>Object.prototype\<close>, which changes the prototype or does nothing,
  and the object gets no own property.
\<close>

definition setProperty :: "string \<Rightarrow> json \<Rightarrow> (string \<times> json) list \<Rightarrow> (string \<times> json) list" where
  "setProperty k v obj = (if k = ''__proto__'' then obj else AList.update k v obj)"

text \<open>
  The members of \<^verbatim>\<open>Object.prototype\<close>. Each is a function, or for \<^verbatim>\<open>__proto__\<close> the
  prototype object, hence truthy; a lookup \<^verbatim>\<open>o[name]\<close> on a plain object without such an
  own property finds it.
\<close>

definition objectPrototypeNames :: "string list" where
  "objectPrototypeNames =
     [''constructor'', ''__defineGetter__'', ''__defineSetter__'', ''hasOwnProperty'',
      ''__lookupGetter__'', ''__lookupSetter__'', ''isPrototypeOf'', ''propertyIsEnumerable'',
      ''toString'', ''valueOf'', ''__proto__'', ''toLocaleString'']"

text \<open>Reading a decimal rendering back.\<close>

definition nat_of_string :: "string \<Rightarrow> nat" where
  "nat_of_string s = foldl (\<lambda>a c. 10 * a + (of_char c - 48)) 0 s"

section \<open>Platform functions\<close>

text \<open>
  The program calls three functions of its platform: \<^verbatim>\<open>new URL(s).origin\<close> (the
  constructor throws a \<^verbatim>\<open>TypeError\<close> on a string that is not an absolute URL, which is
  \<open>None\<close> here), \<^verbatim>\<open>URLExt.join\<close> and \<^verbatim>\<open>encodeURIComponent\<close>. They are parameters of
  the model.
\<close>

record platform =
  url_origin :: "string \<Rightarrow> string option"
  url_join :: "string \<Rightarrow> string \<Rightarrow> string"
  encodeURIComponent :: "string \<Rightarrow> string"

text \<open>
  A reference platform for concrete evaluation, for ASCII URLs whose host is a registered
  name (no address literal, no percent-escape). As the browser does, \<open>web_origin\<close>
  lower-cases scheme and host, drops credentials and the default port, answers \<^verbatim>\<open>null\<close> for
  a scheme that is not special, and \<open>None\<close> (the constructor throws) for a string without
  a scheme or without a host. As \<^verbatim>\<open>URLExt.join\<close> does, \<open>web_join\<close> keeps the authority,
  drops query and fragment of the base and normalises the joined path (empty and dot
  segments) the way \<^verbatim>\<open>posix.join\<close> does.
\<close>

definition is_alpha :: "char \<Rightarrow> bool" where
  "is_alpha c \<longleftrightarrow> c \<in> set ''ABCDEFGHIJKLMNOPQRSTUVWXYZabcdefghijklmnopqrstuvwxyz''"

definition is_digit :: "char \<Rightarrow> bool" where
  "is_digit c \<longleftrightarrow> c \<in> set ''0123456789''"

definition lower :: "char \<Rightarrow> char" where
  "lower c =
     (case map_of (zip ''ABCDEFGHIJKLMNOPQRSTUVWXYZ'' ''abcdefghijklmnopqrstuvwxyz'') c of
        Some l \<Rightarrow> l
      | None \<Rightarrow> c)"

definition split_scheme :: "string \<Rightarrow> (string \<times> string) option" where
  "split_scheme s =
     (let sch = takeWhile (\<lambda>c. c \<noteq> CHR '':'') s
      in if length sch < length s \<and> list_all is_alpha (take 1 sch) \<and> sch \<noteq> []
            \<and> list_all (\<lambda>c. is_alpha c \<or> is_digit c \<or> c \<in> set ''+-.'') sch
         then Some (map lower sch, drop (Suc (length sch)) s)
         else None)"

definition default_port :: "string \<Rightarrow> nat option" where
  "default_port scheme =
     (if scheme = ''http'' \<or> scheme = ''ws'' then Some 80
      else if scheme = ''https'' \<or> scheme = ''wss'' then Some 443
      else if scheme = ''ftp'' then Some 21
      else None)"

definition is_slash :: "char \<Rightarrow> bool" where
  "is_slash c = (c = CHR ''/'' \<or> c = CHR 0x5C)"

definition authority_of :: "string \<Rightarrow> string" where
  "authority_of rest =
     takeWhile (\<lambda>c. \<not> is_slash c \<and> c \<noteq> CHR ''?'' \<and> c \<noteq> CHR ''#'') (dropWhile is_slash rest)"

definition hostport_of :: "string \<Rightarrow> string" where
  "hostport_of authority = rev (takeWhile (\<lambda>c. c \<noteq> CHR ''@'') (rev authority))"

definition host_char :: "char \<Rightarrow> bool" where
  "host_char c = (is_alpha c \<or> is_digit c \<or> c \<in> set ''-._~!$&()*+,;='' \<or> c = CHR 0x27)"

definition host_port :: "string \<Rightarrow> nat \<Rightarrow> (string \<times> string) option" where
  "host_port hostport dport =
     (let host = map lower (takeWhile (\<lambda>c. c \<noteq> CHR '':'') hostport);
          port = drop (Suc (length host)) hostport
      in if host = [] \<or> \<not> list_all host_char host \<or> \<not> list_all is_digit port
            \<or> 65535 < nat_of_string port
         then None
         else Some (host, if port = [] \<or> nat_of_string port = dport then []
                          else '':'' @ string_of_nat (nat_of_string port)))"

definition web_origin :: "string \<Rightarrow> string option" where
  "web_origin s =
     (case split_scheme s of
        None \<Rightarrow> None
      | Some (scheme, rest) \<Rightarrow>
          (case default_port scheme of
             None \<Rightarrow> Some ''null''
           | Some dport \<Rightarrow>
               (case host_port (hostport_of (authority_of rest)) dport of
                  None \<Rightarrow> None
                | Some (host, port) \<Rightarrow> Some (scheme @ ''://'' @ host @ port))))"

fun split_on :: "char \<Rightarrow> string \<Rightarrow> string list" where
  "split_on c [] = [] # []"
| "split_on c (x # xs) =
     (if x = c then [] # split_on c xs
      else (case split_on c xs of [] \<Rightarrow> [x] # [] | y # ys \<Rightarrow> (x # y) # ys))"

definition normalize_step :: "bool \<Rightarrow> string list \<Rightarrow> string \<Rightarrow> string list" where
  "normalize_step allowAboveRoot acc seg =
     (if seg = [] \<or> seg = ''.'' then acc
      else if seg = ''..'' then
        (if acc \<noteq> [] \<and> last acc \<noteq> ''..'' then butlast acc
         else if allowAboveRoot then acc @ [''..''] else acc)
      else acc @ [seg])"

fun join_with_slash :: "string list \<Rightarrow> string" where
  "join_with_slash [] = []"
| "join_with_slash [x] = x"
| "join_with_slash (x # y # ys) = x @ ''/'' @ join_with_slash (y # ys)"

definition posix_normalize :: "string \<Rightarrow> string" where
  "posix_normalize path =
     (if path = [] then ''.''
      else
        let isAbsolute = (take 1 path = ''/'');
            trailingSeparator = (last path = CHR ''/'');
            body = join_with_slash
                     (foldl (normalize_step (\<not> isAbsolute)) [] (split_on CHR ''/'' path));
            body1 = (if body = [] \<and> \<not> isAbsolute then ''.'' else body);
            body2 = (if body1 \<noteq> [] \<and> trailingSeparator then body1 @ ''/'' else body1)
        in if isAbsolute then ''/'' @ body2 else body2)"

definition posix_join :: "string \<Rightarrow> string \<Rightarrow> string" where
  "posix_join a b =
     (if a = [] \<and> b = [] then ''.''
      else if a = [] then posix_normalize b
      else if b = [] then posix_normalize a
      else posix_normalize (a @ ''/'' @ b))"

definition path_part :: "string \<Rightarrow> string" where
  "path_part s = takeWhile (\<lambda>c. c \<noteq> CHR ''?'' \<and> c \<noteq> CHR ''#'') s"

definition split_base :: "string \<Rightarrow> string \<times> string" where
  "split_base a =
     (case split_scheme a of
        Some (scheme, rest) \<Rightarrow>
          if take 2 rest = ''//'' then
            let authority = authority_of rest;
                hostport = hostport_of authority;
                auth = take (length authority - length hostport) authority;
                pathname = path_part (drop (2 + length authority) rest);
                hp = (case default_port scheme of
                        None \<Rightarrow> map lower hostport
                      | Some dport \<Rightarrow>
                          (case host_port hostport dport of
                             None \<Rightarrow> map lower hostport
                           | Some (host, port) \<Rightarrow> host @ port))
            in (scheme @ ''://'' @ auth @ hp,
                if pathname = [] \<and> default_port scheme \<noteq> None then ''/'' else pathname)
          else (scheme @ '':'', path_part rest)
      | None \<Rightarrow>
          if take 2 a = ''//'' then
            let authority = authority_of a
            in (''//'' @ map lower authority, path_part (drop (2 + length authority) a))
          else ([], path_part a))"

definition web_join :: "string \<Rightarrow> string \<Rightarrow> string" where
  "web_join a b =
     (let (pre, pathname) = split_base a;
          path = posix_join ((if pre \<noteq> [] \<and> take 1 pathname \<noteq> ''/'' then ''/'' else []) @ pathname) b
      in pre @ (if path = ''.'' then [] else path))"

definition unreserved :: "char \<Rightarrow> bool" where
  "unreserved c \<longleftrightarrow>
     c \<in> set ''ABCDEFGHIJKLMNOPQRSTUVWXYZabcdefghijklmnopqrstuvwxyz0123456789-_.!~*()''
     \<or> c = CHR 0x27"

definition hex_digit :: "nat \<Rightarrow> char" where
  "hex_digit n = ''0123456789ABCDEF'' ! (n mod 16)"

definition percent_encode :: "string \<Rightarrow> string" where
  "percent_encode s =
     concat (map (\<lambda>c. if unreserved c then [c]
                       else [CHR ''%'', hex_digit (of_char c div 16), hex_digit (of_char c)]) s)"

definition web_platform :: platform where
  "web_platform = \<lparr>url_origin = web_origin, url_join = web_join,
                    encodeURIComponent = percent_encode\<rparr>"

section \<open>Rewriting remote kernel-spec resources\<close>

datatype error = TypeError | Rejected

text \<open>
  The body of the inner loop of \<^verbatim>\<open>_transformRemoteSpecResources\<close> for one resource path
  that is a string: the absolute URL, then the token.
\<close>

definition transformUrl :: "platform \<Rightarrow> string \<Rightarrow> string \<Rightarrow> string \<Rightarrow> error + string" where
  "transformUrl p base tok resourcePath =
     (case (if prefix ''http://'' resourcePath \<or> prefix ''https://'' resourcePath
            then Inr resourcePath
            else if prefix ''/'' resourcePath
            then (case url_origin p base of
                    None \<Rightarrow> Inl TypeError
                  | Some origin \<Rightarrow> Inr (origin @ resourcePath))
            else Inr (url_join p base resourcePath)) of
        Inl e \<Rightarrow> Inl e
      | Inr transformedUrl \<Rightarrow>
          if tok \<noteq> []
          then Inr (transformedUrl
                    @ (if CHR ''?'' \<in> set transformedUrl then ''&'' else ''?'')
                    @ ''token='' @ encodeURIComponent p tok)
          else Inr transformedUrl)"

text \<open>The inner loop over \<^verbatim>\<open>Object.entries(resources)\<close>; values that are not strings are skipped.\<close>

fun transformResources ::
  "platform \<Rightarrow> string \<Rightarrow> string \<Rightarrow> (string \<times> json) list \<Rightarrow> (string \<times> json) list
   \<Rightarrow> error + (string \<times> json) list" where
  "transformResources p base tok [] acc = Inr acc"
| "transformResources p base tok ((resourceKey, JStr resourcePath) # rest) acc =
     (case transformUrl p base tok resourcePath of
        Inl e \<Rightarrow> Inl e
      | Inr u \<Rightarrow> transformResources p base tok rest (setProperty resourceKey (JStr u) acc))"
| "transformResources p base tok ((resourceKey, v) # rest) acc =
     transformResources p base tok rest acc"

text \<open>
  The body of the outer loop for one entry of \<^verbatim>\<open>specs.kernelspecs\<close>: \<open>None\<close> when the entry
  is skipped (\<^verbatim>\<open>if (!rawSpec) continue\<close>), otherwise the normalised spec model.
\<close>

definition innerSpec :: "json \<Rightarrow> json" where
  "innerSpec rawSpec = nullish_or (getProp rawSpec ''spec'') rawSpec"

definition rawResources :: "json \<Rightarrow> json" where
  "rawResources rawSpec =
     nullish_or (getProp rawSpec ''resources'')
       (nullish_or (getProp (innerSpec rawSpec) ''resources'') (JObj []))"

definition transformEntry ::
  "platform \<Rightarrow> string \<Rightarrow> string \<Rightarrow> string \<Rightarrow> json \<Rightarrow> error + json option" where
  "transformEntry p base tok name rawSpec =
     (if \<not> truthy rawSpec then Inr None
      else
        let spec = innerSpec rawSpec;
            resources = rawResources rawSpec
        in case transformResources p base tok (entries resources) [] of
             Inl e \<Rightarrow> Inl e
           | Inr transformedResources \<Rightarrow>
               Inr (Some (JObj
                 [(''name'', nullish_or (getProp spec ''name'') (JStr name)),
                  (''display_name'', nullish_or (getProp spec ''display_name'') (JStr name)),
                  (''language'', nullish_or (getProp spec ''language'') (JStr [])),
                  (''argv'', nullish_or (getProp spec ''argv'') (JArr [])),
                  (''env'', nullish_or (getProp spec ''env'') (JObj [])),
                  (''metadata'', nullish_or (getProp spec ''metadata'') (JObj [])),
                  (''resources'', JObj transformedResources)])))"

text \<open>The outer loop over \<^verbatim>\<open>Object.entries(specs.kernelspecs)\<close>.\<close>

fun transformKernelspecs ::
  "platform \<Rightarrow> string \<Rightarrow> string \<Rightarrow> (string \<times> json) list \<Rightarrow> (string \<times> json) list
   \<Rightarrow> error + (string \<times> json) list" where
  "transformKernelspecs p base tok [] acc = Inr acc"
| "transformKernelspecs p base tok ((name, rawSpec) # rest) acc =
     (case transformEntry p base tok name rawSpec of
        Inl e \<Rightarrow> Inl e
      | Inr None \<Rightarrow> transformKernelspecs p base tok rest acc
      | Inr (Some model) \<Rightarrow>
          transformKernelspecs p base tok rest (setProperty name model acc))"

record server_settings =
  baseUrl :: string
  token :: string

text \<open>
  \<^verbatim>\<open>_transformRemoteSpecResources(specs)\<close>. \<^verbatim>\<open>Object.entries\<close> throws a \<^verbatim>\<open>TypeError\<close> on
  \<^verbatim>\<open>undefined\<close> and \<^verbatim>\<open>null\<close>; the result is \<^verbatim>\<open>{...specs, kernelspecs: transformed}\<close>.
\<close>

definition transformRemoteSpecResources ::
  "platform \<Rightarrow> server_settings option \<Rightarrow> json option \<Rightarrow> error + json option" where
  "transformRemoteSpecResources p serverSettings specs =
     (case specs of
        None \<Rightarrow> Inr None
      | Some s \<Rightarrow>
          if \<not> truthy s then Inr (Some s)
          else
            (case serverSettings of
               None \<Rightarrow> Inr (Some s)
             | Some cfg \<Rightarrow>
                 if nullish (getProp s ''kernelspecs'') then Inl TypeError
                 else
                   (case transformKernelspecs p (baseUrl cfg) (token cfg)
                           (spread (getProp s ''kernelspecs'')) [] of
                      Inl e \<Rightarrow> Inl e
                    | Inr transformedKernelspecs \<Rightarrow>
                        Inr (Some (JObj (AList.update ''kernelspecs''
                                           (JObj transformedKernelspecs) (entries s)))))))"

section \<open>The merged kernel-spec registry\<close>

datatype 'a outcome = Throws | Returns 'a

datatype mode = HybridMode | RemoteMode

text \<open>
  \<^verbatim>\<open>KernelSpec.ISpecModels\<close> as the managers hold it: the in-process registry and the
  merged registry.
\<close>

record spec_models =
  sm_default :: json
  sm_kernelspecs :: "(string \<times> json) list"

text \<open>
  What the collaborators answer during one \<^verbatim>\<open>refreshSpecs\<close>: the refresh of the server's
  spec manager followed by its \<^verbatim>\<open>specs\<close> (hybrid mode), \<^verbatim>\<open>fetch(url)\<close> with the response's
  \<^verbatim>\<open>ok\<close> flag and \<^verbatim>\<open>json()\<close> (remote mode), and the refresh of the in-process spec manager
  followed by its \<^verbatim>\<open>specs\<close>.
\<close>

record world =
  server_refresh :: "json option outcome"
  fetch :: "string \<Rightarrow> (bool \<times> json outcome) outcome"
  lite_refresh :: "spec_models option outcome"

text \<open>The manager's \<^verbatim>\<open>_specs\<close> and the values emitted on \<^verbatim>\<open>_specsChanged\<close>, oldest first.\<close>

record spec_manager =
  specs :: "spec_models option"
  specsChanged :: "spec_models list"

text \<open>\<^verbatim>\<open>Object.assign(target, source)\<close>, which is how a spread fills an object literal.\<close>

definition assign :: "(string \<times> json) list \<Rightarrow> (string \<times> json) list \<Rightarrow> (string \<times> json) list" where
  "assign target source = fold (\<lambda>(k, v). AList.update k v) source target"

definition optProp :: "json option \<Rightarrow> string \<Rightarrow> json option" where
  "optProp v k = (case v of None \<Rightarrow> None | Some j \<Rightarrow> getProp j k)"

text \<open>The URL of the remote spec endpoint, with the token when there is one.\<close>

definition urlWithToken :: "platform \<Rightarrow> server_settings \<Rightarrow> string" where
  "urlWithToken p serverSettings =
     (let specsUrl = url_join p (baseUrl serverSettings) ''api/kernelspecs''
      in if token serverSettings \<noteq> []
         then specsUrl @ ''?token='' @ encodeURIComponent p (token serverSettings)
         else specsUrl)"

text \<open>The first part of \<^verbatim>\<open>refreshSpecs\<close>: the value of \<^verbatim>\<open>serverSpecs\<close>.\<close>

definition serverSpecsOf :: "platform \<Rightarrow> mode \<Rightarrow> server_settings \<Rightarrow> world \<Rightarrow> json option" where
  "serverSpecsOf p m serverSettings w =
     (case m of
        HybridMode \<Rightarrow>
          (case server_refresh w of Throws \<Rightarrow> None | Returns s \<Rightarrow> s)
      | RemoteMode \<Rightarrow>
          if baseUrl serverSettings \<noteq> [] then
            (case fetch w (urlWithToken p serverSettings) of
               Throws \<Rightarrow> None
             | Returns (ok, body) \<Rightarrow>
                 if ok then (case body of Throws \<Rightarrow> None | Returns d \<Rightarrow> Some d)
                 else None)
          else None)"

definition liteEntries :: "spec_models option \<Rightarrow> (string \<times> json) list" where
  "liteEntries l = (case l of None \<Rightarrow> [] | Some s \<Rightarrow> AList.clearjunk (sm_kernelspecs s))"

definition mergeSpecs :: "json option \<Rightarrow> json option \<Rightarrow> spec_models option \<Rightarrow> spec_models" where
  "mergeSpecs serverSpecs transformedServerSpecs newLiteSpecs =
     \<lparr>sm_default =
        nullish_or (optProp serverSpecs ''default'')
          (nullish_or (map_option sm_default newLiteSpecs) (JStr [])),
      sm_kernelspecs =
        assign (assign [] (spread (optProp transformedServerSpecs ''kernelspecs'')))
          (liteEntries newLiteSpecs)\<rparr>"

text \<open>
  \<^verbatim>\<open>refreshSpecs()\<close>. \<open>ksmSettings\<close> are the settings of the inner server spec manager,
  \<open>serverSettings\<close> the manager's own optional \<^verbatim>\<open>_serverSettings\<close>. The refresh of the
  in-process side is not guarded, so its failure rejects the call.
\<close>

definition refreshSpecs ::
  "platform \<Rightarrow> mode \<Rightarrow> server_settings \<Rightarrow> server_settings option \<Rightarrow> world
   \<Rightarrow> spec_manager \<Rightarrow> error + spec_manager" where
  "refreshSpecs p m ksmSettings serverSettings w st =
     (let serverSpecs = serverSpecsOf p m ksmSettings w
      in case lite_refresh w of
           Throws \<Rightarrow> Inl Rejected
         | Returns newLiteSpecs \<Rightarrow>
             if \<not> truthy_opt serverSpecs \<and> newLiteSpecs = None then Inr st
             else
               (case (if m = RemoteMode
                      then transformRemoteSpecResources p serverSettings serverSpecs
                      else Inr serverSpecs) of
                  Inl e \<Rightarrow> Inl e
                | Inr transformedServerSpecs \<Rightarrow>
                    let merged = mergeSpecs serverSpecs transformedServerSpecs newLiteSpecs
                    in Inr (st\<lparr>specs := Some merged,
                               specsChanged := specsChanged st @ [merged]\<rparr>)))"

section \<open>Routing between the two backends\<close>

text \<open>
  Every operation of a router ends in a call to one of the two backends. An operation is
  modelled by the list of backend calls it makes, in order.
\<close>

datatype backend = LiteBackend | RemoteBackend

datatype operation =
    StartNew "string option"
  | ConnectTo string
  | Shutdown string
  | Restart string
  | Interrupt string
  | FindById string
  | ListRunning

type_synonym call = "backend \<times> operation"

record kernel_model =
  kernel_id :: string
  kernel_name :: string

text \<open>
  \<^verbatim>\<open>!!specs?.kernelspecs[name]\<close> on the in-process registry, whose \<^verbatim>\<open>kernelspecs\<close> is a plain
  object: an own property decides by its truthiness, and without one the lookup finds the
  members of \<^verbatim>\<open>Object.prototype\<close>.
\<close>

definition hasSpec :: "spec_models option \<Rightarrow> string \<Rightarrow> bool" where
  "hasSpec liteSpecs name =
     (case liteSpecs of
        None \<Rightarrow> False
      | Some s \<Rightarrow>
          (case map_of (sm_kernelspecs s) name of
             Some v \<Rightarrow> truthy v
           | None \<Rightarrow> name \<in> set objectPrototypeNames))"

subsection \<open>HybridKernelManager\<close>

text \<open>
  What the manager reads when it routes: the running enumeration of the in-process kernel
  manager and the in-process spec registry \<^verbatim>\<open>_liteKernelSpecs.specs\<close>.
\<close>

record kernel_manager =
  liteRunning :: "kernel_model list"
  liteKernelSpecs :: "spec_models option"

definition isLiteKernel :: "kernel_manager \<Rightarrow> string option \<Rightarrow> string option \<Rightarrow> bool" where
  "isLiteKernel km kid name =
     (let hasSpec' = hasSpec (liteKernelSpecs km) (case name of None \<Rightarrow> [] | Some n \<Rightarrow> n);
          running = find (\<lambda>k. Some (kernel_id k) = kid) (liteRunning km)
      in running \<noteq> None \<or> hasSpec')"




definition kernelManager_shutdown :: "kernel_manager \<Rightarrow> string \<Rightarrow> call list" where
  "kernelManager_shutdown km kid =
     (if isLiteKernel km (Some kid) None then [(LiteBackend, Shutdown kid)]
      else [(RemoteBackend, Shutdown kid)])"

text \<open>
  \<^verbatim>\<open>findById\<close> awaits \<^verbatim>\<open>_kernelManager.findById\<close>, the server-side manager, and asks the
  in-process manager only when that answer is not a model. The two lookups are
  parameters; a lookup that rejects rejects the call.
\<close>

definition kernelManager_findById ::
  "(string \<Rightarrow> kernel_model option outcome) \<Rightarrow> (string \<Rightarrow> kernel_model option outcome)
   \<Rightarrow> string \<Rightarrow> call list \<times> (error + kernel_model option)" where
  "kernelManager_findById remoteFind liteFind kid =
     (case remoteFind kid of
        Throws \<Rightarrow> ([(RemoteBackend, FindById kid)], Inl Rejected)
      | Returns (Some model) \<Rightarrow> ([(RemoteBackend, FindById kid)], Inr (Some model))
      | Returns None \<Rightarrow>
          (case liteFind kid of
             Throws \<Rightarrow>
               ([(RemoteBackend, FindById kid), (LiteBackend, FindById kid)], Inl Rejected)
           | Returns r \<Rightarrow>
               ([(RemoteBackend, FindById kid), (LiteBackend, FindById kid)], Inr r)))"

subsection \<open>HybridSessionManager\<close>

record session_model =
  session_id :: string
  session_path :: string






definition sessionManager_findById ::
  "(string \<Rightarrow> session_model option outcome) \<Rightarrow> (string \<Rightarrow> session_model option outcome)
   \<Rightarrow> string \<Rightarrow> call list \<times> (error + session_model option)" where
  "sessionManager_findById remoteFind liteFind kid =
     (case remoteFind kid of
        Throws \<Rightarrow> ([(RemoteBackend, FindById kid)], Inl Rejected)
      | Returns (Some model) \<Rightarrow> ([(RemoteBackend, FindById kid)], Inr (Some model))
      | Returns None \<Rightarrow>
          (case liteFind kid of
             Throws \<Rightarrow>
               ([(RemoteBackend, FindById kid), (LiteBackend, FindById kid)], Inl Rejected)
           | Returns r \<Rightarrow>
               ([(RemoteBackend, FindById kid), (LiteBackend, FindById kid)], Inr r)))"

subsection \<open>HybridKernelClient\<close>

text \<open>
  The client keeps its own set \<^verbatim>\<open>_liteKernelIds\<close>, maintained by the handler it connects
  to the in-process client's \<^verbatim>\<open>changed\<close> signal in its constructor.
\<close>

datatype change_type = Add | Remove | Change

record changed_args =
  change_kind :: change_type
  oldValue :: "kernel_model option"
  newValue :: "kernel_model option"

record kernel_client =
  liteKernelIds :: "string set"
  clientLiteKernelSpecs :: "spec_models option"

definition onChanged :: "changed_args \<Rightarrow> kernel_client \<Rightarrow> kernel_client" where
  "onChanged args c =
     (if change_kind args = Add \<and> newValue args \<noteq> None then
        (case newValue args of
           Some k \<Rightarrow> c\<lparr>liteKernelIds := insert (kernel_id k) (liteKernelIds c)\<rparr>
         | None \<Rightarrow> c)
      else if change_kind args = Remove \<and> oldValue args \<noteq> None then
        (case oldValue args of
           Some k \<Rightarrow> c\<lparr>liteKernelIds := liteKernelIds c - {kernel_id k}\<rparr>
         | None \<Rightarrow> c)
      else c)"


definition kernelClient_restart :: "kernel_client \<Rightarrow> string \<Rightarrow> call list" where
  "kernelClient_restart c kernelId =
     (if kernelId \<in> liteKernelIds c then [(LiteBackend, Restart kernelId)]
      else [(RemoteBackend, Restart kernelId)])"

definition kernelClient_interrupt :: "kernel_client \<Rightarrow> string \<Rightarrow> call list" where
  "kernelClient_interrupt c kernelId =
     (if kernelId \<in> liteKernelIds c then [(LiteBackend, Interrupt kernelId)]
      else [(RemoteBackend, Interrupt kernelId)])"

definition kernelClient_shutdown :: "kernel_client \<Rightarrow> string \<Rightarrow> call list" where
  "kernelClient_shutdown c kid =
     (if kid \<in> liteKernelIds c then [(LiteBackend, Shutdown kid)]
      else [(RemoteBackend, Shutdown kid)])"

text \<open>
  \<^verbatim>\<open>listRunning\<close>: the in-process enumeration is awaited first, outside the \<^verbatim>\<open>try\<close>; the
  remote enumeration is guarded.
\<close>

definition kernelClient_listRunning ::
  "kernel_model list outcome \<Rightarrow> kernel_model list outcome
   \<Rightarrow> call list \<times> (error + kernel_model list)" where
  "kernelClient_listRunning liteList remoteList =
     (case liteList of
        Throws \<Rightarrow> ([(LiteBackend, ListRunning)], Inl Rejected)
      | Returns liteKernels \<Rightarrow>
          (case remoteList of
             Returns remoteKernels \<Rightarrow>
               ([(LiteBackend, ListRunning), (RemoteBackend, ListRunning)],
                Inr (liteKernels @ remoteKernels))
           | Throws \<Rightarrow>
               ([(LiteBackend, ListRunning), (RemoteBackend, ListRunning)],
                Inr liteKernels)))"

text \<open>
  The in-process kernel client, a collaborator, holds its kernels in an observable map
  keyed by kernel id and forwards the map's change notifications: storing under a new key
  notifies \<open>Add\<close>, storing under an existing key notifies \<open>Change\<close>, deleting an existing
  key notifies \<open>Remove\<close>; its running enumeration lists the stored kernels. The hybrid
  client is connected to it from the start, when it holds no kernel.
\<close>

datatype lite_event = KernelStarted kernel_model | KernelStopped string

record client_system =
  liteKernels :: "(string \<times> kernel_model) list"
  hybridClient :: kernel_client

definition lite_listRunning :: "client_system \<Rightarrow> kernel_model list" where
  "lite_listRunning sys = map snd (liteKernels sys)"

fun system_step :: "client_system \<Rightarrow> lite_event \<Rightarrow> client_system" where
  "system_step sys (KernelStarted k) =
     (let old = map_of (liteKernels sys) (kernel_id k);
          args = \<lparr>change_kind = (if old = None then Add else Change),
                  oldValue = old, newValue = Some k\<rparr>
      in \<lparr>liteKernels = AList.update (kernel_id k) k (liteKernels sys),
          hybridClient = onChanged args (hybridClient sys)\<rparr>)"
| "system_step sys (KernelStopped kid) =
     (case map_of (liteKernels sys) kid of
        None \<Rightarrow> sys
      | Some k \<Rightarrow>
          \<lparr>liteKernels = AList.delete kid (liteKernels sys),
           hybridClient =
             onChanged \<lparr>change_kind = Remove, oldValue = Some k, newValue = None\<rparr>
               (hybridClient sys)\<rparr>)"

definition system_init :: "spec_models option \<Rightarrow> client_system" where
  "system_init liteSpecs =
     \<lparr>liteKernels = [],
      hybridClient = \<lparr>liteKernelIds = {}, clientLiteKernelSpecs = liteSpecs\<rparr>\<rparr>"

definition system_run :: "spec_models option \<Rightarrow> lite_event list \<Rightarrow> client_system" where
  "system_run liteSpecs evs = foldl system_step (system_init liteSpecs) evs"

section \<open>Remote server configuration\<close>

text \<open>
  \<^verbatim>\<open>PageConfig\<close> is the backing key/value store: \<^verbatim>\<open>getOption\<close> reads a key,
  \<^verbatim>\<open>setOption\<close> writes it. The record keeps the store, the log of the \<^verbatim>\<open>setOption\<close> calls
  made (oldest first) and the number of \<^verbatim>\<open>changed\<close> emissions.
\<close>

definition PAGE_CONFIG_BASE_URL_KEY :: string where
  "PAGE_CONFIG_BASE_URL_KEY = ''hybridKernelsBaseUrl''"

definition PAGE_CONFIG_TOKEN_KEY :: string where
  "PAGE_CONFIG_TOKEN_KEY = ''hybridKernelsToken''"

record remote_server_config =
  pageConfig :: "string \<Rightarrow> string"
  setOptionLog :: "(string \<times> string) list"
  changedEmitted :: nat
  isConnected :: bool

definition getOption :: "remote_server_config \<Rightarrow> string \<Rightarrow> string" where
  "getOption st key = pageConfig st key"

definition setOption :: "string \<Rightarrow> string \<Rightarrow> remote_server_config \<Rightarrow> remote_server_config" where
  "setOption key v st =
     st\<lparr>pageConfig := (pageConfig st)(key := v), setOptionLog := setOptionLog st @ [(key, v)]\<rparr>"

definition RemoteServerConfig_update ::
  "string option \<Rightarrow> string option \<Rightarrow> remote_server_config \<Rightarrow> remote_server_config" where
  "RemoteServerConfig_update configBaseUrl configToken st =
     (let currentBaseUrl = getOption st PAGE_CONFIG_BASE_URL_KEY;
          currentToken = getOption st PAGE_CONFIG_TOKEN_KEY;
          (st1, hasChanged1) =
            (case configBaseUrl of
               Some b \<Rightarrow>
                 if b \<noteq> currentBaseUrl then (setOption PAGE_CONFIG_BASE_URL_KEY b st, True)
                 else (st, False)
             | None \<Rightarrow> (st, False));
          (st2, hasChanged2) =
            (case configToken of
               Some t \<Rightarrow>
                 if t \<noteq> currentToken then (setOption PAGE_CONFIG_TOKEN_KEY t st1, True)
                 else (st1, hasChanged1)
             | None \<Rightarrow> (st1, hasChanged1))
      in if hasChanged2 then st2\<lparr>changedEmitted := changedEmitted st2 + 1\<rparr> else st2)"

definition setConnected :: "bool \<Rightarrow> remote_server_config \<Rightarrow> remote_server_config" where
  "setConnected connected st =
     (if isConnected st \<noteq> connected
      then st\<lparr>isConnected := connected, changedEmitted := changedEmitted st + 1\<rparr>
      else st)"

section \<open>Notions used to state the properties\<close>







text \<open>
  The keys the server side contributes to a rebuild: the keys of its \<^verbatim>\<open>kernelspecs\<close>, of
  which the remote-mode normalisation keeps those whose entry is truthy and that are not
  \<^verbatim>\<open>__proto__\<close>.
\<close>

definition serverSideKeys :: "mode \<Rightarrow> server_settings option \<Rightarrow> json option \<Rightarrow> string set" where
  "serverSideKeys m serverSettings serverSpecs =
     (let raw = spread (optProp serverSpecs ''kernelspecs'')
      in if m = RemoteMode \<and> serverSettings \<noteq> None
         then {k \<in> keys raw. truthy_opt (map_of raw k) \<and> k \<noteq> ''__proto__''}
         else keys raw)"

text \<open>The keys of the registry a manager holds after a refresh that returned.\<close>

definition registryKeys :: "error + spec_manager \<Rightarrow> string set" where
  "registryKeys r =
     (case r of
        Inl e \<Rightarrow> {}
      | Inr st \<Rightarrow> (case specs st of None \<Rightarrow> {} | Some merged \<Rightarrow> keys (sm_kernelspecs merged)))"

text \<open>A field of an update that is given and differs from the stored value.\<close>

definition provided_and_different :: "string option \<Rightarrow> string \<Rightarrow> bool" where
  "provided_and_different field current = (case field of None \<Rightarrow> False | Some v \<Rightarrow> v \<noteq> current)"

text \<open>The \<^verbatim>\<open>setOption\<close> call an update makes for one field.\<close>

definition writes_of :: "string \<Rightarrow> string option \<Rightarrow> string \<Rightarrow> (string \<times> string) list" where
  "writes_of key field current =
     (case field of None \<Rightarrow> [] | Some v \<Rightarrow> if v \<noteq> current then [(key, v)] else [])"

text \<open>
  The invariant of the client system: kernels are stored under their own id, and the
  hybrid client tracks exactly the stored keys.
\<close>

definition system_inv :: "client_system \<Rightarrow> bool" where
  "system_inv sys \<longleftrightarrow>
     (\<forall>(key, k) \<in> set (liteKernels sys). kernel_id k = key)
     \<and> liteKernelIds (hybridClient sys) = fst ` set (liteKernels sys)"

section \<open>Concrete inputs\<close>

text \<open>
  A lite registry that defines \<^verbatim>\<open>python3\<close>, a server registry that defines \<^verbatim>\<open>python3\<close> and
  \<^verbatim>\<open>ir\<close>, a payload with a \<^verbatim>\<open>null\<close> entry, kernels, lookups, a server
  envelope and a stored configuration.
\<close>

definition ex_settings :: server_settings where
  "ex_settings = \<lparr>baseUrl = ''https://host/prefix/'', token = []\<rparr>"

definition ex_local_python :: json where
  "ex_local_python = JObj [(''name'', JStr ''python3''), (''display_name'', JStr ''Local Python'')]"

definition ex_remote_python :: json where
  "ex_remote_python = JObj [(''name'', JStr ''python3''), (''display_name'', JStr ''Remote Python'')]"

definition ex_r_kernel :: json where
  "ex_r_kernel = JObj [(''name'', JStr ''ir''), (''display_name'', JStr ''R'')]"

definition ex_lite_specs :: "spec_models option" where
  "ex_lite_specs =
     Some \<lparr>sm_default = JStr ''python3'', sm_kernelspecs = [(''python3'', ex_local_python)]\<rparr>"

definition ex_server_specs :: json where
  "ex_server_specs =
     JObj [(''default'', JStr ''python3''),
           (''kernelspecs'', JObj [(''python3'', ex_remote_python), (''ir'', ex_r_kernel)])]"

definition ex_no_fetch :: "string \<Rightarrow> (bool \<times> json outcome) outcome" where
  "ex_no_fetch u = Throws"

definition ex_world :: world where
  "ex_world = \<lparr>server_refresh = Returns (Some ex_server_specs), fetch = ex_no_fetch,
                lite_refresh = Returns ex_lite_specs\<rparr>"

definition ex_manager :: spec_manager where
  "ex_manager = \<lparr>specs = None, specsChanged = []\<rparr>"

definition ex_merged :: spec_models where
  "ex_merged = \<lparr>sm_default = JStr ''python3'',
                 sm_kernelspecs = [(''python3'', ex_local_python), (''ir'', ex_r_kernel)]\<rparr>"


definition ex_empty_registry :: spec_models where
  "ex_empty_registry = \<lparr>sm_default = JStr [], sm_kernelspecs = []\<rparr>"

definition ex_failing_world :: world where
  "ex_failing_world = \<lparr>server_refresh = Throws, fetch = ex_no_fetch,
                        lite_refresh = Returns (Some ex_empty_registry)\<rparr>"

definition ex_prior :: spec_manager where
  "ex_prior = \<lparr>specs = Some ex_merged, specsChanged = [ex_merged]\<rparr>"

definition ex_null_payload :: json where
  "ex_null_payload =
     JObj [(''default'', JStr ''x''),
           (''kernelspecs'', JObj [(''x'', JNull), (''__proto__'', ex_r_kernel)])]"

definition ex_null_fetch :: "string \<Rightarrow> (bool \<times> json outcome) outcome" where
  "ex_null_fetch u = Returns (True, Returns ex_null_payload)"

definition ex_null_world :: world where
  "ex_null_world = \<lparr>server_refresh = Throws, fetch = ex_null_fetch,
                     lite_refresh = Returns ex_lite_specs\<rparr>"

definition ex_k1 :: kernel_model where
  "ex_k1 = \<lparr>kernel_id = ''k1'', kernel_name = ''python3''\<rparr>"

definition ex_k2 :: kernel_model where
  "ex_k2 = \<lparr>kernel_id = ''k2'', kernel_name = ''python3''\<rparr>"

definition ex_events :: "lite_event list" where
  "ex_events = [KernelStarted ex_k1, KernelStarted ex_k2, KernelStopped ''k1'']"

definition ex_remote_model :: kernel_model where
  "ex_remote_model = \<lparr>kernel_id = ''remote-1'', kernel_name = ''python3''\<rparr>"



definition ex_find_nothing :: "string \<Rightarrow> kernel_model option outcome" where
  "ex_find_nothing kid = Returns None"

definition ex_find_k2 :: "string \<Rightarrow> kernel_model option outcome" where
  "ex_find_k2 kid = (if kid = ''k2'' then Returns (Some ex_k2) else Returns None)"

definition ex_find_fails :: "string \<Rightarrow> kernel_model option outcome" where
  "ex_find_fails kid = Throws"

definition ex_find_session_nothing :: "string \<Rightarrow> session_model option outcome" where
  "ex_find_session_nothing kid = Returns None"









definition ex_config :: remote_server_config where
  "ex_config = \<lparr>pageConfig = (\<lambda>key. if key = ''hybridKernelsBaseUrl'' then ''https://host/'' else []),
                 setOptionLog = [], changedEmitted = 0, isConnected = False\<rparr>"

section \<open>Routing properties\<close>

subsection \<open>Classification by id\<close>

lemma find_None_iff_ids:
  "(find (\<lambda>k. Some (kernel_id k) = Some i) ks \<noteq> None) \<longleftrightarrow> i \<in> kernel_id ` set ks"
  by (auto simp: find_None_iff image_iff)

lemma isLiteKernel_iff:
  "isLiteKernel km (Some i) name \<longleftrightarrow>
     i \<in> kernel_id ` set (liteRunning km)
     \<or> hasSpec (liteKernelSpecs km) (case name of None \<Rightarrow> [] | Some n \<Rightarrow> n)"
  unfolding isLiteKernel_def Let_def find_None_iff_ids by simp


subsection \<open>The hybrid client tracks the in-process enumeration\<close>

lemma set_update_subset: "set (AList.update k v al) \<subseteq> insert (k, v) (set al)"
  by (induct al) auto

lemma dom_delete_eq: "fst ` set (AList.delete k al) = fst ` set al - {k}"
proof -
  have "set (map fst (AList.delete k al)) = set (map fst al) - {k}"
    by (simp add: delete_keys)
  then show ?thesis by simp
qed

lemma system_inv_init: "system_inv (system_init lite)"
  by (simp add: system_inv_def system_init_def)

lemma onChanged_add:
  "liteKernelIds (onChanged \<lparr>change_kind = Add, oldValue = ov, newValue = Some k\<rparr> c)
     = insert (kernel_id k) (liteKernelIds c)"
  by (simp add: onChanged_def)

lemma onChanged_change:
  "onChanged \<lparr>change_kind = Change, oldValue = ov, newValue = nv\<rparr> c = c"
  by (simp add: onChanged_def)

lemma onChanged_remove:
  "liteKernelIds (onChanged \<lparr>change_kind = Remove, oldValue = Some k, newValue = nv\<rparr> c)
     = liteKernelIds c - {kernel_id k}"
  by (simp add: onChanged_def)

lemma system_inv_started:
  assumes "system_inv sys"
  shows "system_inv (system_step sys (KernelStarted k))"
proof -
  let ?L = "liteKernels sys"
  let ?L' = "AList.update (kernel_id k) k ?L"
  from assms have keyed: "\<forall>(key, k') \<in> set ?L. kernel_id k' = key"
    and tracked: "liteKernelIds (hybridClient sys) = fst ` set ?L"
    by (simp_all add: system_inv_def)
  have "set ?L' \<subseteq> insert (kernel_id k, k) (set ?L)"
    by (rule set_update_subset)
  with keyed have keyed': "\<forall>(key, k') \<in> set ?L'. kernel_id k' = key"
    by auto
  have dom: "fst ` set ?L' = insert (kernel_id k) (fst ` set ?L)"
    by (simp add: dom_update)
  show ?thesis
  proof (cases "map_of ?L (kernel_id k)")
    case None
    then have "system_step sys (KernelStarted k) =
        \<lparr>liteKernels = ?L',
         hybridClient = onChanged \<lparr>change_kind = Add, oldValue = None, newValue = Some k\<rparr>
                          (hybridClient sys)\<rparr>"
      by simp
    with keyed' dom tracked show ?thesis
      by (simp add: system_inv_def onChanged_add)
  next
    case (Some old)
    then have "kernel_id k \<in> fst ` set ?L"
      by (meson domI domIff map_of_eq_None_iff)
    with dom have dom': "fst ` set ?L' = fst ` set ?L"
      by auto
    from Some have "system_step sys (KernelStarted k) =
        \<lparr>liteKernels = ?L',
         hybridClient = onChanged \<lparr>change_kind = Change, oldValue = Some old, newValue = Some k\<rparr>
                          (hybridClient sys)\<rparr>"
      by simp
    with keyed' dom' tracked show ?thesis
      by (simp add: system_inv_def onChanged_change)
  qed
qed

lemma system_inv_stopped:
  assumes "system_inv sys"
  shows "system_inv (system_step sys (KernelStopped kid))"
proof (cases "map_of (liteKernels sys) kid")
  case None
  with assms show ?thesis by simp
next
  case (Some k)
  let ?L = "liteKernels sys"
  let ?L' = "AList.delete kid ?L"
  from assms have keyed: "\<forall>(key, k') \<in> set ?L. kernel_id k' = key"
    and tracked: "liteKernelIds (hybridClient sys) = fst ` set ?L"
    by (simp_all add: system_inv_def)
  from Some have "(kid, k) \<in> set ?L"
    by (rule map_of_SomeD)
  with keyed have idk: "kernel_id k = kid"
    by auto
  have "set ?L' \<subseteq> set ?L"
    by (auto simp: AList.delete_eq)
  with keyed have keyed': "\<forall>(key, k') \<in> set ?L'. kernel_id k' = key"
    by auto
  have dom: "fst ` set ?L' = fst ` set ?L - {kid}"
    by (rule dom_delete_eq)
  from Some have "system_step sys (KernelStopped kid) =
      \<lparr>liteKernels = ?L',
       hybridClient = onChanged \<lparr>change_kind = Remove, oldValue = Some k, newValue = None\<rparr>
                        (hybridClient sys)\<rparr>"
    by simp
  with keyed' dom tracked idk show ?thesis
    by (simp add: system_inv_def onChanged_remove)
qed

lemma system_inv_step: "system_inv sys \<Longrightarrow> system_inv (system_step sys ev)"
  by (cases ev) (simp_all only: system_inv_started system_inv_stopped)

lemma system_inv_run: "system_inv (system_run lite evs)"
  unfolding system_run_def
  by (induction evs rule: rev_induct) (simp_all add: system_inv_init system_inv_step)

lemma keyed_ids: "\<forall>(key, k) \<in> set L. kernel_id k = key \<Longrightarrow> kernel_id ` snd ` set L = fst ` set L"
  by (induct L) auto

lemma tracked_ids_are_running_ids:
  "liteKernelIds (hybridClient (system_run lite evs))
     = kernel_id ` set (lite_listRunning (system_run lite evs))"
proof -
  have inv: "system_inv (system_run lite evs)" by (rule system_inv_run)
  then have "kernel_id ` snd ` set (liteKernels (system_run lite evs))
               = fst ` set (liteKernels (system_run lite evs))"
    by (intro keyed_ids) (simp add: system_inv_def)
  with inv show ?thesis
    by (simp add: system_inv_def lite_listRunning_def)
qed

lemma ex_run:
  "system_run ex_lite_specs ex_events =
     \<lparr>liteKernels = [(''k2'', ex_k2)],
      hybridClient = \<lparr>liteKernelIds = {''k2''}, clientLiteKernelSpecs = ex_lite_specs\<rparr>\<rparr>"
  by (simp add: system_run_def system_init_def ex_events_def ex_k1_def ex_k2_def onChanged_def
      Let_def insert_Diff_if)

subsection \<open>Operations on ids of in-process kernels\<close>

text \<open>
  C2. For every kernel id that the in-process backend's running enumeration reports,
  \<^verbatim>\<open>shutdown\<close> of the kernel manager and \<^verbatim>\<open>shutdown\<close>, \<^verbatim>\<open>restart\<close> and \<^verbatim>\<open>interrupt\<close> of the
  kernel client make exactly one backend call, to the in-process backend, and none to
  the remote backend. For the client the enumeration is the one of the in-process client
  after any sequence of kernel starts and stops it has notified.
\<close>

theorem lite_ids_route_to_lite:
  "(i \<in> kernel_id ` set (liteRunning km) \<longrightarrow>
      kernelManager_shutdown km i = [(LiteBackend, Shutdown i)])
   \<and> (i \<in> kernel_id ` set (lite_listRunning (system_run lite evs)) \<longrightarrow>
        kernelClient_shutdown (hybridClient (system_run lite evs)) i = [(LiteBackend, Shutdown i)]
        \<and> kernelClient_restart (hybridClient (system_run lite evs)) i = [(LiteBackend, Restart i)]
        \<and> kernelClient_interrupt (hybridClient (system_run lite evs)) i
            = [(LiteBackend, Interrupt i)])"
  by (simp add: kernelManager_shutdown_def isLiteKernel_iff kernelClient_shutdown_def
      kernelClient_restart_def kernelClient_interrupt_def tracked_ids_are_running_ids)

text \<open>C2 at the kernel \<^verbatim>\<open>k2\<close>, after \<^verbatim>\<open>k1\<close> and \<^verbatim>\<open>k2\<close> were started and \<^verbatim>\<open>k1\<close> was stopped.\<close>

theorem lite_ids_route_to_lite_witness:
  "''k2'' \<in> kernel_id ` set (liteRunning \<lparr>liteRunning = [ex_k2], liteKernelSpecs = None\<rparr>)
   \<and> kernelManager_shutdown \<lparr>liteRunning = [ex_k2], liteKernelSpecs = None\<rparr> ''k2''
       = [(LiteBackend, Shutdown ''k2'')]
   \<and> ''k2'' \<in> kernel_id ` set (lite_listRunning (system_run ex_lite_specs ex_events))
   \<and> kernelClient_restart (hybridClient (system_run ex_lite_specs ex_events)) ''k2''
       = [(LiteBackend, Restart ''k2'')]
   \<and> kernelClient_interrupt (hybridClient (system_run ex_lite_specs ex_events)) ''k2''
       = [(LiteBackend, Interrupt ''k2'')]
   \<and> kernelClient_shutdown (hybridClient (system_run ex_lite_specs ex_events)) ''k2''
       = [(LiteBackend, Shutdown ''k2'')]"
proof -
  have mgr: "''k2'' \<in> kernel_id ` set (liteRunning \<lparr>liteRunning = [ex_k2], liteKernelSpecs = None\<rparr>)"
    by (simp add: ex_k2_def)
  have cli: "''k2'' \<in> kernel_id ` set (lite_listRunning (system_run ex_lite_specs ex_events))"
    by (simp add: ex_run lite_listRunning_def ex_k2_def)
  from lite_ids_route_to_lite
         [of "''k2''" "\<lparr>liteRunning = [ex_k2], liteKernelSpecs = None\<rparr>" ex_lite_specs ex_events]
       mgr cli
  show ?thesis by simp
qed

subsection \<open>Operations on ids the in-process backend does not report\<close>




subsection \<open>Lookup by id\<close>

text \<open>
  C8, amended. \<^verbatim>\<open>findById\<close> of the kernel manager and of the session manager asks the
  server-side manager first: a model found there is returned without asking the
  in-process manager; when the server side has none, the in-process manager is asked and
  its answer, a model or \<^verbatim>\<open>undefined\<close>, is returned. A lookup that fails rejects the call:
  a failing server-side lookup without asking the in-process manager, a failing
  in-process lookup after the server side had none.
\<close>

theorem findById_remote_first:
  "(remoteFind i = Returns (Some m) \<longrightarrow>
      kernelManager_findById remoteFind liteFind i = ([(RemoteBackend, FindById i)], Inr (Some m)))
   \<and> (remoteFind i = Returns None \<and> liteFind i = Returns r \<longrightarrow>
      kernelManager_findById remoteFind liteFind i =
        ([(RemoteBackend, FindById i), (LiteBackend, FindById i)], Inr r))
   \<and> (sRemoteFind i = Returns (Some s) \<longrightarrow>
      sessionManager_findById sRemoteFind sLiteFind i =
        ([(RemoteBackend, FindById i)], Inr (Some s)))
   \<and> (sRemoteFind i = Returns None \<and> sLiteFind i = Returns q \<longrightarrow>
      sessionManager_findById sRemoteFind sLiteFind i =
        ([(RemoteBackend, FindById i), (LiteBackend, FindById i)], Inr q))
   \<and> (remoteFind i = Throws \<longrightarrow>
      kernelManager_findById remoteFind liteFind i = ([(RemoteBackend, FindById i)], Inl Rejected))
   \<and> (remoteFind i = Returns None \<and> liteFind i = Throws \<longrightarrow>
      kernelManager_findById remoteFind liteFind i =
        ([(RemoteBackend, FindById i), (LiteBackend, FindById i)], Inl Rejected))
   \<and> (sRemoteFind i = Throws \<longrightarrow>
      sessionManager_findById sRemoteFind sLiteFind i =
        ([(RemoteBackend, FindById i)], Inl Rejected))
   \<and> (sRemoteFind i = Returns None \<and> sLiteFind i = Throws \<longrightarrow>
      sessionManager_findById sRemoteFind sLiteFind i =
        ([(RemoteBackend, FindById i), (LiteBackend, FindById i)], Inl Rejected))"
  by (simp add: kernelManager_findById_def sessionManager_findById_def)

text \<open>
  C8 as stated fails: for a kernel that only the in-process manager has, the first lookup
  goes to the remote backend; and when both have it, the in-process manager is not asked.
\<close>

theorem findById_local_first_counterexample:
  "kernelManager_findById ex_find_nothing ex_find_k2 ''k2''
     = ([(RemoteBackend, FindById ''k2''), (LiteBackend, FindById ''k2'')], Inr (Some ex_k2))
   \<and> hd (fst (kernelManager_findById ex_find_nothing ex_find_k2 ''k2''))
       \<noteq> (LiteBackend, FindById ''k2'')
   \<and> kernelManager_findById ex_find_k2 ex_find_k2 ''k2''
       = ([(RemoteBackend, FindById ''k2'')], Inr (Some ex_k2))"
  by (simp add: kernelManager_findById_def ex_find_nothing_def ex_find_k2_def)

text \<open>C8, amended, at a server-side hit, at misses and at failing lookups.\<close>

theorem findById_remote_first_witness:
  "kernelManager_findById ex_find_k2 ex_find_nothing ''k2''
     = ([(RemoteBackend, FindById ''k2'')], Inr (Some ex_k2))
   \<and> kernelManager_findById ex_find_nothing ex_find_nothing ''k2''
     = ([(RemoteBackend, FindById ''k2''), (LiteBackend, FindById ''k2'')], Inr None)
   \<and> sessionManager_findById ex_find_session_nothing ex_find_session_nothing ''s1''
     = ([(RemoteBackend, FindById ''s1''), (LiteBackend, FindById ''s1'')], Inr None)
   \<and> kernelManager_findById ex_find_fails ex_find_k2 ''k2''
     = ([(RemoteBackend, FindById ''k2'')], Inl Rejected)
   \<and> kernelManager_findById ex_find_nothing ex_find_fails ''k2''
     = ([(RemoteBackend, FindById ''k2''), (LiteBackend, FindById ''k2'')], Inl Rejected)"
proof -
  have hit: "ex_find_k2 ''k2'' = Returns (Some ex_k2)"
    by (simp add: ex_find_k2_def)
  have miss: "ex_find_nothing ''k2'' = Returns None"
    by (simp add: ex_find_nothing_def)
  have smiss: "ex_find_session_nothing ''s1'' = Returns None"
    by (simp add: ex_find_session_nothing_def)
  have fails: "ex_find_fails ''k2'' = Throws"
    by (simp add: ex_find_fails_def)
  from findById_remote_first
         [of ex_find_k2 "''k2''" ex_k2 ex_find_nothing None ex_find_session_nothing _
             ex_find_session_nothing None]
       findById_remote_first
         [of ex_find_nothing "''k2''" _ ex_find_nothing None ex_find_session_nothing _
             ex_find_session_nothing None]
       findById_remote_first
         [of ex_find_nothing "''s1''" _ ex_find_nothing None ex_find_session_nothing _
             ex_find_session_nothing None]
       findById_remote_first
         [of ex_find_fails "''k2''" _ ex_find_k2 None ex_find_session_nothing _
             ex_find_session_nothing None]
       findById_remote_first
         [of ex_find_nothing "''k2''" _ ex_find_fails None ex_find_session_nothing _
             ex_find_session_nothing None]
       hit miss smiss fails
  show ?thesis by (simp add: ex_find_nothing_def ex_find_session_nothing_def)
qed

subsection \<open>Enumeration of running kernels\<close>

text \<open>
  C9. When the remote enumeration fails, \<^verbatim>\<open>listRunning\<close> of the kernel client resolves
  with exactly the in-process kernels; when both enumerations succeed it resolves with
  the in-process kernels followed by the remote ones.
\<close>

theorem listRunning_degrades_to_lite:
  "kernelClient_listRunning (Returns ls) Throws =
     ([(LiteBackend, ListRunning), (RemoteBackend, ListRunning)], Inr ls)
   \<and> kernelClient_listRunning (Returns ls) (Returns rs) =
     ([(LiteBackend, ListRunning), (RemoteBackend, ListRunning)],
      Inr (ls @ rs))"
  by (simp add: kernelClient_listRunning_def)

text \<open>C9 at one in-process and one remote kernel.\<close>

theorem listRunning_degrades_to_lite_witness:
  "kernelClient_listRunning (Returns [ex_k2]) Throws =
     ([(LiteBackend, ListRunning), (RemoteBackend, ListRunning)], Inr [ex_k2])
   \<and> kernelClient_listRunning (Returns [ex_k2]) (Returns [ex_remote_model]) =
     ([(LiteBackend, ListRunning), (RemoteBackend, ListRunning)], Inr [ex_k2, ex_remote_model])"
  using listRunning_degrades_to_lite [of "[ex_k2]" "[ex_remote_model]"] by simp

section \<open>Configuration updates\<close>

text \<open>
  C10. An update whose fields are each omitted or equal to the stored value leaves the
  configuration as it is: no \<^verbatim>\<open>setOption\<close> call and no \<^verbatim>\<open>changed\<close> emission. An update
  with a given field that differs makes a \<^verbatim>\<open>setOption\<close> call for exactly the differing
  fields and emits \<^verbatim>\<open>changed\<close> exactly once. After every update the store holds each
  given value under its key, and every other key and the connection state are as before.
\<close>

theorem update_writes_only_differences:
  "(\<not> provided_and_different b (getOption st PAGE_CONFIG_BASE_URL_KEY)
      \<and> \<not> provided_and_different t (getOption st PAGE_CONFIG_TOKEN_KEY)
      \<longrightarrow> RemoteServerConfig_update b t st = st)
   \<and> (provided_and_different b (getOption st PAGE_CONFIG_BASE_URL_KEY)
        \<or> provided_and_different t (getOption st PAGE_CONFIG_TOKEN_KEY)
      \<longrightarrow> changedEmitted (RemoteServerConfig_update b t st) = changedEmitted st + 1
        \<and> setOptionLog (RemoteServerConfig_update b t st) =
            setOptionLog st
              @ writes_of PAGE_CONFIG_BASE_URL_KEY b (getOption st PAGE_CONFIG_BASE_URL_KEY)
              @ writes_of PAGE_CONFIG_TOKEN_KEY t (getOption st PAGE_CONFIG_TOKEN_KEY)
        \<and> setOptionLog (RemoteServerConfig_update b t st) \<noteq> setOptionLog st)
   \<and> getOption (RemoteServerConfig_update b t st) PAGE_CONFIG_BASE_URL_KEY
       = (case b of Some v \<Rightarrow> v | None \<Rightarrow> getOption st PAGE_CONFIG_BASE_URL_KEY)
   \<and> getOption (RemoteServerConfig_update b t st) PAGE_CONFIG_TOKEN_KEY
       = (case t of Some v \<Rightarrow> v | None \<Rightarrow> getOption st PAGE_CONFIG_TOKEN_KEY)
   \<and> (key \<noteq> PAGE_CONFIG_BASE_URL_KEY \<and> key \<noteq> PAGE_CONFIG_TOKEN_KEY
      \<longrightarrow> getOption (RemoteServerConfig_update b t st) key = getOption st key)
   \<and> isConnected (RemoteServerConfig_update b t st) = isConnected st"
proof -
  have distinct_keys: "PAGE_CONFIG_BASE_URL_KEY \<noteq> PAGE_CONFIG_TOKEN_KEY"
    by (simp add: PAGE_CONFIG_BASE_URL_KEY_def PAGE_CONFIG_TOKEN_KEY_def)
  then show ?thesis
    by (auto simp: RemoteServerConfig_update_def provided_and_different_def writes_of_def
        getOption_def setOption_def Let_def split: option.splits)
qed

text \<open>C10 at a stored base URL, updated with equal values and with a new token.\<close>

theorem update_writes_only_differences_witness:
  "RemoteServerConfig_update (Some ''https://host/'') None ex_config = ex_config
   \<and> RemoteServerConfig_update (Some ''https://host/'') (Some []) ex_config = ex_config
   \<and> changedEmitted (RemoteServerConfig_update (Some ''https://host/'') (Some ''abc'') ex_config) = 1
   \<and> setOptionLog (RemoteServerConfig_update (Some ''https://host/'') (Some ''abc'') ex_config)
       = [(''hybridKernelsToken'', ''abc'')]
   \<and> getOption (RemoteServerConfig_update (Some ''https://host/'') (Some ''abc'') ex_config)
        PAGE_CONFIG_TOKEN_KEY = ''abc''
   \<and> getOption (RemoteServerConfig_update (Some ''https://host/'') (Some ''abc'') ex_config)
        PAGE_CONFIG_BASE_URL_KEY = ''https://host/''"
proof -
  have cur: "getOption ex_config PAGE_CONFIG_BASE_URL_KEY = ''https://host/''"
            "getOption ex_config PAGE_CONFIG_TOKEN_KEY = []"
    by (simp_all add: getOption_def ex_config_def PAGE_CONFIG_BASE_URL_KEY_def
        PAGE_CONFIG_TOKEN_KEY_def)
  from update_writes_only_differences [of "Some ''https://host/''" ex_config None "[]"]
       update_writes_only_differences [of "Some ''https://host/''" ex_config "Some []" "[]"]
       update_writes_only_differences [of "Some ''https://host/''" ex_config "Some ''abc''" "[]"]
       cur
  show ?thesis
    by (simp add: provided_and_different_def writes_of_def ex_config_def
        PAGE_CONFIG_TOKEN_KEY_def)
qed

section \<open>Properties of the rewriting\<close>

subsection \<open>Entries of JSON values have distinct keys\<close>

lemma nat_of_string_of_nat: "nat_of_string (string_of_nat n) = n"
proof (induction n rule: string_of_nat.induct)
  case (1 n)
  show ?case
  proof (cases "n < 10")
    case True
    then show ?thesis
      by (subst string_of_nat.simps) (simp add: nat_of_string_def)
  next
    case False
    with 1 have ih: "nat_of_string (string_of_nat (n div 10)) = n div 10" by simp
    have "nat_of_string (string_of_nat n)
            = 10 * nat_of_string (string_of_nat (n div 10)) + (of_char (char_of (48 + n mod 10) :: char) - 48)"
      using False by (subst string_of_nat.simps) (simp add: nat_of_string_def)
    also have "(of_char (char_of (48 + n mod 10) :: char) :: nat) = 48 + n mod 10"
      by simp
    finally show ?thesis using ih by simp
  qed
qed

lemma inj_string_of_nat: "inj string_of_nat"
  by (rule inj_on_inverseI [where g = nat_of_string]) (rule nat_of_string_of_nat)

lemma distinct_index_keys: "distinct (map fst (zip (map string_of_nat [0..<length xs]) xs))"
proof -
  have "map fst (zip (map string_of_nat [0..<length xs]) xs) = map string_of_nat [0..<length xs]"
    by simp
  moreover have "distinct (map string_of_nat [0..<length xs])"
    by (simp add: distinct_map inj_string_of_nat inj_on_subset [OF inj_string_of_nat])
  ultimately show ?thesis by simp
qed

lemma distinct_entries: "distinct (map fst (entries j))"
proof (cases j)
  case (JStr s)
  have "distinct (map fst (zip (map string_of_nat [0..<length (map (\<lambda>c. JStr [c]) s)])
                      (map (\<lambda>c. JStr [c]) s)))"
    by (rule distinct_index_keys)
  with JStr show ?thesis by simp
next
  case (JArr xs)
  then show ?thesis using distinct_index_keys [of xs] by simp
qed simp_all

lemma distinct_spread: "distinct (map fst (spread v))"
  by (cases v) (simp_all add: spread_def distinct_entries)

subsection \<open>One resource URL\<close>





subsection \<open>Assignment to a plain object\<close>

lemma map_of_setProperty:
  "map_of (setProperty k v obj) k' = (if k' = k \<and> k \<noteq> ''__proto__'' then Some v else map_of obj k')"
  by (simp add: setProperty_def update_conv')

lemma keys_setProperty:
  "fst ` set (setProperty k v obj)
     = (if k = ''__proto__'' then fst ` set obj else insert k (fst ` set obj))"
  by (simp add: setProperty_def dom_update)

subsection \<open>The loop over the resources\<close>



lemma transformResources_proto:
  "transformResources p b t es acc = Inr out
     \<Longrightarrow> map_of out ''__proto__'' = map_of acc ''__proto__''"
  by (induction p b t es acc rule: transformResources.induct)
     (auto simp: map_of_setProperty split: sum.splits if_splits)




subsection \<open>One spec entry\<close>







lemma transformEntry_None_iff:
  "(transformEntry p b t name raw = Inr None) \<longleftrightarrow> \<not> truthy raw"
  by (auto simp: transformEntry_def Let_def split: sum.splits)

lemma transformEntry_Some:
  assumes "transformEntry p b t name raw = Inr (Some out)"
  shows "truthy raw"
    and "\<exists>res. transformResources p b t (entries (rawResources raw)) [] = Inr res \<and>
           out = JObj
             [(''name'', nullish_or (getProp (innerSpec raw) ''name'') (JStr name)),
              (''display_name'', nullish_or (getProp (innerSpec raw) ''display_name'') (JStr name)),
              (''language'', nullish_or (getProp (innerSpec raw) ''language'') (JStr [])),
              (''argv'', nullish_or (getProp (innerSpec raw) ''argv'') (JArr [])),
              (''env'', nullish_or (getProp (innerSpec raw) ''env'') (JObj [])),
              (''metadata'', nullish_or (getProp (innerSpec raw) ''metadata'') (JObj [])),
              (''resources'', JObj res)]"
  using assms by (auto simp: transformEntry_def Let_def split: sum.splits if_splits)




subsection \<open>The loop over the kernel specs\<close>




subsection \<open>The whole payload\<close>



subsection \<open>Concrete rewritings\<close>







subsection \<open>The rewritten resources\<close>




subsection \<open>Totality and defaults\<close>




section \<open>Properties of the merged registry\<close>

subsection \<open>Assignment and spread\<close>

lemma keys_Nil: "keys [] = {}"
  by (simp add: keys_def)

lemma keys_assign: "keys (assign target source) = keys target \<union> keys source"
proof (induction source arbitrary: target)
  case Nil
  then show ?case by (simp add: assign_def keys_def)
next
  case (Cons kv source)
  obtain k v where kv: "kv = (k, v)" by (cases kv)
  have "assign target (kv # source) = assign (AList.update k v target) source"
    by (simp add: assign_def kv)
  with Cons [of "AList.update k v target"] show ?case
    by (auto simp: keys_def kv dom_update)
qed

lemma map_of_assign:
  "distinct (map fst source) \<Longrightarrow> map_of (assign target source) = map_of target ++ map_of source"
proof (induction source arbitrary: target)
  case Nil
  then show ?case by (simp add: assign_def)
next
  case (Cons kv source)
  obtain k v where kv: "kv = (k, v)" by (cases kv)
  from Cons.prems kv have fresh: "k \<notin> dom (map_of source)" and dist: "distinct (map fst source)"
    by (auto simp: dom_map_of_conv_image_fst)
  have step: "assign target (kv # source) = assign (AList.update k v target) source"
    by (simp add: assign_def kv)
  have "map_of (assign (AList.update k v target) source)
          = map_of (AList.update k v target) ++ map_of source"
    by (rule Cons.IH [OF dist])
  with step have "map_of (assign target (kv # source)) = (map_of target)(k \<mapsto> v) ++ map_of source"
    by (simp only: update_conv')
  also have "\<dots> = map_of target ++ map_of (kv # source)"
    using fresh by (auto simp: kv map_add_def fun_eq_iff split: option.splits)
  finally show ?case .
qed

lemma distinct_liteEntries: "distinct (map fst (liteEntries l))"
  by (cases l) (simp_all add: liteEntries_def)


lemma map_of_liteEntries: "map_of (liteEntries (Some s)) = map_of (sm_kernelspecs s)"
  by (simp add: liteEntries_def map_of_clearjunk)

subsection \<open>Keys that survive the remote-mode normalisation\<close>

lemma falsy_has_no_props: "\<not> truthy s \<Longrightarrow> getProp s k = None"
  by (cases s) simp_all

lemma transformKernelspecs_keys:
  "transformKernelspecs p b t es acc = Inr out
     \<Longrightarrow> fst ` set out
           = fst ` set acc \<union> {k. k \<noteq> ''__proto__'' \<and> (\<exists>v. (k, v) \<in> set es \<and> truthy v)}"
proof (induction p b t es acc rule: transformKernelspecs.induct)
  case (1 p base tok acc)
  then show ?case by simp
next
  case (2 p base tok name rawSpec rest acc)
  show ?case
  proof (cases "transformEntry p base tok name rawSpec")
    case (Inl e)
    with "2.prems" show ?thesis by simp
  next
    case (Inr r)
    show ?thesis
    proof (cases r)
      case None
      with Inr have falsy: "\<not> truthy rawSpec" by (simp add: transformEntry_None_iff)
      from "2.prems" Inr None have "transformKernelspecs p base tok rest acc = Inr out"
        by simp
      from "2.IH"(1) [OF Inr None this] falsy show ?thesis by auto
    next
      case (Some model)
      with Inr have truthy: "truthy rawSpec" by (simp add: transformEntry_Some(1))
      from "2.prems" Inr Some
      have "transformKernelspecs p base tok rest (setProperty name model acc) = Inr out"
        by simp
      from "2.IH"(2) [OF Inr Some this]
      have "fst ` set out = fst ` set (setProperty name model acc)
              \<union> {k. k \<noteq> ''__proto__'' \<and> (\<exists>v. (k, v) \<in> set rest \<and> truthy v)}" .
      with truthy show ?thesis
        by (auto simp: keys_setProperty split: if_splits)
    qed
  qed
qed

lemma truthy_keys_distinct:
  assumes "distinct (map fst es)"
  shows "{k. \<exists>v. (k, v) \<in> set es \<and> truthy v} = {k \<in> keys es. truthy_opt (map_of es k)}"
proof -
  have mem: "\<And>k v. ((k, v) \<in> set es) = (map_of es k = Some v)"
    using assms by simp
  have "{k. \<exists>v. map_of es k = Some v \<and> truthy v} = {k \<in> keys es. truthy_opt (map_of es k)}"
  proof (intro set_eqI iffI)
    fix k assume "k \<in> {k. \<exists>v. map_of es k = Some v \<and> truthy v}"
    then obtain v where v: "map_of es k = Some v" "truthy v" by blast
    then have "(k, v) \<in> set es" by (simp add: mem)
    then have "k \<in> keys es" by (force simp: keys_def)
    with v show "k \<in> {k \<in> keys es. truthy_opt (map_of es k)}"
      by (simp add: truthy_opt_def)
  next
    fix k assume "k \<in> {k \<in> keys es. truthy_opt (map_of es k)}"
    then show "k \<in> {k. \<exists>v. map_of es k = Some v \<and> truthy v}"
      by (auto simp: truthy_opt_def split: option.splits)
  qed
  then show ?thesis by (simp add: mem)
qed

lemma transformed_keys:
  assumes "transformRemoteSpecResources p own serverSpecs = Inr tr"
  shows "keys (spread (optProp tr ''kernelspecs'')) = serverSideKeys RemoteMode own serverSpecs"
proof (cases serverSpecs)
  case None
  with assms show ?thesis
    by (simp add: transformRemoteSpecResources_def serverSideKeys_def optProp_def spread_def keys_def)
next
  case (Some s)
  show ?thesis
  proof (cases "truthy s \<and> own \<noteq> None")
    case False
    with assms Some have tr: "tr = Some s"
      by (auto simp: transformRemoteSpecResources_def split: if_splits option.splits)
    show ?thesis
    proof (cases "truthy s")
      case True
      with False have "own = None" by simp
      with tr Some show ?thesis by (simp add: serverSideKeys_def)
    next
      case False
      then have "getProp s ''kernelspecs'' = None" by (rule falsy_has_no_props)
      with tr Some show ?thesis
        by (simp add: serverSideKeys_def optProp_def spread_def keys_def)
    qed
  next
    case True
    then obtain cfg where own: "own = Some cfg" and truthy: "truthy s" by auto
    let ?es = "spread (getProp s ''kernelspecs'')"
    from assms Some own truthy obtain tks where
      run: "transformKernelspecs p (baseUrl cfg) (token cfg) ?es [] = Inr tks"
      and tr: "tr = Some (JObj (AList.update ''kernelspecs'' (JObj tks) (entries s)))"
      by (auto simp: transformRemoteSpecResources_def split: if_splits sum.splits)
    from tr have "optProp tr ''kernelspecs'' = Some (JObj tks)"
      by (simp add: optProp_def update_conv')
    then have "keys (spread (optProp tr ''kernelspecs'')) = fst ` set tks"
      by (simp add: spread_def keys_def dom_clearjunk)
    also have "\<dots> = {k. \<exists>v. (k, v) \<in> set ?es \<and> truthy v} - {''__proto__''}"
      using transformKernelspecs_keys [OF run] by auto
    also have "\<dots> = {k \<in> keys ?es. truthy_opt (map_of ?es k)} - {''__proto__''}"
      by (simp only: truthy_keys_distinct [OF distinct_spread])
    also have "\<dots> = {k \<in> keys ?es. truthy_opt (map_of ?es k) \<and> k \<noteq> ''__proto__''}"
      by auto
    finally show ?thesis
      by (simp add: serverSideKeys_def Let_def Some own optProp_def)
  qed
qed

subsection \<open>A rebuild\<close>

lemma refreshSpecs_rebuild:
  assumes "lite_refresh w = Returns lite"
      and "truthy_opt (serverSpecsOf p m cfg w) \<or> lite \<noteq> None"
      and "refreshSpecs p m cfg own w st = Inr st'"
  shows "\<exists>tr. (if m = RemoteMode
               then transformRemoteSpecResources p own (serverSpecsOf p m cfg w)
               else Inr (serverSpecsOf p m cfg w)) = Inr tr
            \<and> st' = st\<lparr>specs := Some (mergeSpecs (serverSpecsOf p m cfg w) tr lite),
                        specsChanged := specsChanged st
                          @ [mergeSpecs (serverSpecsOf p m cfg w) tr lite]\<rparr>"
  using assms
  by (auto simp: refreshSpecs_def Let_def split: sum.splits if_splits)

lemma keys_mergeSpecs:
  "keys (sm_kernelspecs (mergeSpecs srv tr lite))
     = keys (spread (optProp tr ''kernelspecs'')) \<union> keys (liteEntries lite)"
  by (simp add: mergeSpecs_def keys_assign keys_Nil)

lemma lite_wins_mergeSpecs:
  "k \<in> keys (liteEntries lite)
     \<Longrightarrow> map_of (sm_kernelspecs (mergeSpecs srv tr lite)) k = map_of (liteEntries lite) k"
proof -
  assume "k \<in> keys (liteEntries lite)"
  then have "k \<in> dom (map_of (liteEntries lite))"
    by (simp add: keys_def dom_map_of_conv_image_fst)
  then show ?thesis
    by (auto simp: mergeSpecs_def map_of_assign distinct_liteEntries map_add_dom_app_simps)
qed

lemma rebuilt_registry:
  assumes "lite_refresh w = Returns lite"
      and "truthy_opt (serverSpecsOf p m cfg w) \<or> lite \<noteq> None"
      and "refreshSpecs p m cfg own w st = Inr st'"
  shows "\<exists>merged. specs st' = Some merged
           \<and> specsChanged st' = specsChanged st @ [merged]
           \<and> keys (sm_kernelspecs merged)
               = serverSideKeys m own (serverSpecsOf p m cfg w) \<union> keys (liteEntries lite)
           \<and> (\<forall>k \<in> keys (liteEntries lite).
                 map_of (sm_kernelspecs merged) k = map_of (liteEntries lite) k)"
proof -
  let ?srv = "serverSpecsOf p m cfg w"
  from refreshSpecs_rebuild [OF assms] obtain tr where
    tr: "(if m = RemoteMode then transformRemoteSpecResources p own ?srv else Inr ?srv) = Inr tr"
    and st': "st' = st\<lparr>specs := Some (mergeSpecs ?srv tr lite),
                        specsChanged := specsChanged st @ [mergeSpecs ?srv tr lite]\<rparr>"
    by blast
  have "keys (spread (optProp tr ''kernelspecs'')) = serverSideKeys m own ?srv"
  proof (cases m)
    case HybridMode
    with tr show ?thesis by (simp add: serverSideKeys_def)
  next
    case RemoteMode
    with tr show ?thesis by (simp add: transformed_keys)
  qed
  then have "keys (sm_kernelspecs (mergeSpecs ?srv tr lite))
               = serverSideKeys m own ?srv \<union> keys (liteEntries lite)"
    by (simp add: keys_mergeSpecs)
  with st' show ?thesis
    by (simp add: lite_wins_mergeSpecs)
qed

lemma ex_refresh:
  "refreshSpecs web_platform HybridMode ex_settings (Some ex_settings) ex_world ex_manager
     = Inr \<lparr>specs = Some ex_merged, specsChanged = [ex_merged]\<rparr>"
  by (simp add: refreshSpecs_def serverSpecsOf_def ex_world_def ex_lite_specs_def
      ex_server_specs_def truthy_opt_def mergeSpecs_def optProp_def nullish_or_def spread_def
      liteEntries_def assign_def ex_manager_def ex_merged_def Let_def)

text \<open>
  C4, amended. After every rebuild the manager holds and emits a registry whose keys are
  the union of the server side's keys and the in-process side's keys, where in remote
  mode the server side contributes only the keys other than \<^verbatim>\<open>__proto__\<close> whose entry is
  truthy; for every key of the in-process side the merged entry is the in-process entry.
\<close>

theorem merged_registry_keys:
  assumes "lite_refresh w = Returns lite"
      and "truthy_opt (serverSpecsOf p m cfg w) \<or> lite \<noteq> None"
      and "refreshSpecs p m cfg own w st = Inr st'"
  shows "\<exists>merged. specs st' = Some merged
           \<and> specsChanged st' = specsChanged st @ [merged]
           \<and> keys (sm_kernelspecs merged)
               = serverSideKeys m own (serverSpecsOf p m cfg w) \<union> keys (liteEntries lite)
           \<and> (\<forall>k \<in> keys (liteEntries lite).
                 map_of (sm_kernelspecs merged) k = map_of (liteEntries lite) k)"
  using assms by (rule rebuilt_registry)

text \<open>
  C4 as stated fails: in remote mode a server payload with the entry \<^verbatim>\<open>x: null\<close> and an
  entry under \<^verbatim>\<open>__proto__\<close> has both keys, and the rebuilt registry has only the in-process
  key.
\<close>

theorem merged_keys_union_counterexample:
  "keys (spread (optProp (serverSpecsOf web_platform RemoteMode ex_settings ex_null_world)
                   ''kernelspecs'')) = {''x'', ''__proto__''}
   \<and> registryKeys (refreshSpecs web_platform RemoteMode ex_settings (Some ex_settings)
                     ex_null_world ex_manager) = {''python3''}"
  by (simp add: refreshSpecs_def serverSpecsOf_def ex_null_world_def ex_null_fetch_def
      ex_null_payload_def ex_settings_def truthy_opt_def mergeSpecs_def optProp_def
      nullish_or_def spread_def liteEntries_def assign_def ex_manager_def ex_lite_specs_def
      transformRemoteSpecResources_def transformEntry_def registryKeys_def keys_def
      ex_r_kernel_def innerSpec_def rawResources_def setProperty_def Let_def)

text \<open>
  C4, amended, at two registries that both define \<^verbatim>\<open>python3\<close>: the merged display name is
  the in-process one.
\<close>

theorem merged_registry_keys_witness:
  "refreshSpecs web_platform HybridMode ex_settings (Some ex_settings) ex_world ex_manager
     = Inr \<lparr>specs = Some ex_merged, specsChanged = [ex_merged]\<rparr>
   \<and> keys (sm_kernelspecs ex_merged) = {''python3'', ''ir''}
   \<and> optProp (map_of (sm_kernelspecs ex_merged) ''python3'') ''display_name''
       = Some (JStr ''Local Python'')"
proof -
  have lite: "lite_refresh ex_world = Returns ex_lite_specs"
    by (simp add: ex_world_def)
  have rebuilt: "truthy_opt (serverSpecsOf web_platform HybridMode ex_settings ex_world)
                   \<or> ex_lite_specs \<noteq> None"
    by (simp add: ex_lite_specs_def)
  from merged_registry_keys [OF lite rebuilt ex_refresh]
  have "keys (sm_kernelspecs ex_merged)
          = serverSideKeys HybridMode (Some ex_settings)
              (serverSpecsOf web_platform HybridMode ex_settings ex_world)
            \<union> keys (liteEntries ex_lite_specs)"
    and "\<forall>k \<in> keys (liteEntries ex_lite_specs).
           map_of (sm_kernelspecs ex_merged) k = map_of (liteEntries ex_lite_specs) k"
    by simp_all
  then show ?thesis
    using ex_refresh
    by (simp add: serverSideKeys_def serverSpecsOf_def ex_world_def ex_server_specs_def
        optProp_def spread_def keys_def liteEntries_def ex_lite_specs_def ex_local_python_def
        insert_commute)
qed

subsection \<open>A refresh with nothing to show\<close>

text \<open>
  C5 does not hold of the code. The guard of \<^verbatim>\<open>refreshSpecs\<close> tests the two sides for
  \<^verbatim>\<open>null\<close>, not for emptiness. The server side fails in both modes and the in-process
  manager holds a registry without kernel specs: the refresh replaces the stored registry,
  which has two kernel specs, by an empty one and emits it.
\<close>

theorem refresh_replaces_by_empty_registry:
  "serverSpecsOf web_platform HybridMode ex_settings ex_failing_world = None
   \<and> serverSpecsOf web_platform RemoteMode ex_settings ex_failing_world = None
   \<and> lite_refresh ex_failing_world = Returns (Some ex_empty_registry)
   \<and> sm_kernelspecs ex_empty_registry = []
   \<and> specs ex_prior = Some ex_merged
   \<and> keys (sm_kernelspecs ex_merged) = {''python3'', ''ir''}
   \<and> refreshSpecs web_platform HybridMode ex_settings (Some ex_settings) ex_failing_world ex_prior
       = Inr \<lparr>specs = Some ex_empty_registry, specsChanged = [ex_merged, ex_empty_registry]\<rparr>
   \<and> refreshSpecs web_platform RemoteMode ex_settings (Some ex_settings) ex_failing_world ex_prior
       = Inr \<lparr>specs = Some ex_empty_registry, specsChanged = [ex_merged, ex_empty_registry]\<rparr>"
  by (simp add: refreshSpecs_def serverSpecsOf_def ex_failing_world_def ex_no_fetch_def
      ex_settings_def truthy_opt_def mergeSpecs_def optProp_def nullish_or_def spread_def
      liteEntries_def assign_def ex_prior_def ex_merged_def ex_empty_registry_def
      transformRemoteSpecResources_def keys_def insert_commute Let_def)

subsection \<open>Starting a kernel\<close>


lemma inherited_names_not_empty: "n \<in> set objectPrototypeNames \<Longrightarrow> n \<noteq> []"
  by (auto simp: objectPrototypeNames_def)




end
